theory Spec2Isabelle
  imports Main "HOL-Library.Sublist"
begin

section \<open>JavaScript values and the platform functions the source calls\<close>

text \<open>
  The values that travel through \<^verbatim>\<open>http.ts\<close>: what \<^verbatim>\<open>res.json()\<close> yields, what
  \<^verbatim>\<open>res.text()\<close> yields (a string), the values of the entries of a \<^verbatim>\<open>RequestInit\<close>, and
  the value of the property \<^verbatim>\<open>res.body\<close>, which the Fetch Standard types as
  \<^verbatim>\<open>ReadableStream | null\<close>. Numbers are restricted to integers; an object is the list
  of its own enumerable properties, in property order.
\<close>

datatype js_value =
    JNull
  | JBool bool
  | JNum int
  | JStr string
  | JArr "js_value list"
  | JObj "(string \<times> js_value) list"
  | JReadableStream

text \<open>\<^verbatim>\<open>String.prototype.includes\<close>: a case-sensitive search for a contiguous substring.\<close>

definition str_includes :: "string \<Rightarrow> string \<Rightarrow> bool" where
  "str_includes str search = sublist search str"

text \<open>
  \<^verbatim>\<open>Number::toString\<close> on an integer: its decimal digits, with a minus sign when negative
  (the form JavaScript prints for integers below \<open>10\<^sup>2\<^sup>1\<close> in magnitude).
\<close>

function digits :: "nat \<Rightarrow> string" where
  "digits n = (if n < 10 then [''0123456789'' ! n]
               else digits (n div 10) @ [''0123456789'' ! (n mod 10)])"
  by pat_completeness auto
termination
  by (relation "measure (\<lambda>n. n)") auto

declare digits.simps [simp del]

definition number_to_string :: "int \<Rightarrow> string" where
  "number_to_string n = (if n < 0 then CHR ''-'' # digits (nat (- n)) else digits (nat n))"

text \<open>Joining rendered elements with a separator, as \<^verbatim>\<open>Array.prototype.join\<close> does.\<close>

fun join :: "string \<Rightarrow> string list \<Rightarrow> string" where
  "join sep [] = []"
| "join sep [x] = x"
| "join sep (x # y # ys) = x @ sep @ join sep (y # ys)"

text \<open>
  \<^verbatim>\<open>ToString\<close>, the conversion a template literal applies to an interpolated value: a
  string is itself; an array joins its elements with commas, \<^verbatim>\<open>null\<close> elements rendering
  empty; any other object prints its class tag.
\<close>

fun to_string :: "js_value \<Rightarrow> string" where
  "to_string JNull = ''null''"
| "to_string (JBool b) = (if b then ''true'' else ''false'')"
| "to_string (JNum n) = number_to_string n"
| "to_string (JStr s) = s"
| "to_string (JArr xs) = join '','' (map (\<lambda>x. if x = JNull then [] else to_string x) xs)"
| "to_string (JObj ps) = ''[object Object]''"
| "to_string JReadableStream = ''[object ReadableStream]''"

text \<open>
  \<^verbatim>\<open>QuoteJSONString\<close>: the string between double quotes, with the quote, the backslash
  and the control characters below \<open>0x20\<close> escaped.
\<close>

definition hex4 :: "nat \<Rightarrow> string" where
  "hex4 n = [CHR ''0'', CHR ''0'', ''0123456789abcdef'' ! (n div 16), ''0123456789abcdef'' ! (n mod 16)]"

definition escape_char :: "char \<Rightarrow> string" where
  "escape_char c =
     (if c = CHR 0x22 then [CHR 0x5C, CHR 0x22]
      else if c = CHR 0x5C then [CHR 0x5C, CHR 0x5C]
      else if c = CHR 0x08 then [CHR 0x5C, CHR ''b'']
      else if c = CHR 0x09 then [CHR 0x5C, CHR ''t'']
      else if c = CHR 0x0A then [CHR 0x5C, CHR ''n'']
      else if c = CHR 0x0C then [CHR 0x5C, CHR ''f'']
      else if c = CHR 0x0D then [CHR 0x5C, CHR ''r'']
      else if (of_char c :: nat) < 32 then [CHR 0x5C, CHR ''u''] @ hex4 (of_char c)
      else [c])"

definition quote :: "string \<Rightarrow> string" where
  "quote s = [CHR 0x22] @ concat (map escape_char s) @ [CHR 0x22]"

text \<open>
  \<^verbatim>\<open>JSON.stringify\<close> with one argument. A \<^verbatim>\<open>ReadableStream\<close> is an object with no own
  enumerable property and no \<^verbatim>\<open>toJSON\<close> method, so it serialises as the empty object.
\<close>

fun JSON_stringify :: "js_value \<Rightarrow> string" where
  "JSON_stringify JNull = ''null''"
| "JSON_stringify (JBool b) = (if b then ''true'' else ''false'')"
| "JSON_stringify (JNum n) = number_to_string n"
| "JSON_stringify (JStr s) = quote s"
| "JSON_stringify (JArr xs) = ''['' @ join '','' (map JSON_stringify xs) @ '']''"
| "JSON_stringify (JObj ps) =
     ''{'' @ join '','' (map (\<lambda>p. quote (fst p) @ '':'' @ JSON_stringify (snd p)) ps) @ ''}''"
| "JSON_stringify JReadableStream = ''{}''"

section \<open>The client factory\<close>

text \<open>
  The response-like value the primitive resolves to. Its properties \<^verbatim>\<open>res.ok\<close>,
  \<^verbatim>\<open>res.status\<close>, \<^verbatim>\<open>res.url\<close>, \<^verbatim>\<open>res.headers.get(name)\<close> (\<open>None\<close> for \<^verbatim>\<open>null\<close>) and
  \<^verbatim>\<open>res.body\<close> are values. \<^verbatim>\<open>res.json()\<close> and \<^verbatim>\<open>res.text()\<close> are method calls: awaiting
  one acts on the world \<open>'w\<close>, where the state of the body lives, and resolves (\<open>Inr\<close>)
  or rejects (\<open>Inl\<close>). A platform response can be read once; a later read rejects.
\<close>

record ('w, 'e) response =
  res_ok :: bool
  res_status :: int
  res_url :: string
  res_headers :: "string \<Rightarrow> string option"
  res_body :: js_value
  res_json :: "'w \<Rightarrow> ('e + js_value) \<times> 'w"
  res_text :: "'w \<Rightarrow> ('e + string) \<times> 'w"

text \<open>
  A \<^verbatim>\<open>RequestInit\<close> object is a map from option names to values; an omitted argument
  (\<^verbatim>\<open>undefined\<close>) is \<open>None\<close>. The primitive acts on the world too, and resolves or
  rejects.
\<close>

type_synonym init = "string \<rightharpoonup> js_value"

type_synonym ('w, 'e) Fetch =
  "string \<Rightarrow> init option \<Rightarrow> 'w \<Rightarrow> ('e + ('w, 'e) response) \<times> 'w"

text \<open>
  What the bound client rejects with: a value some awaited promise rejected with, passed
  on as it is, or the \<^verbatim>\<open>new Error(message)\<close> of line 32.
\<close>

datatype 'e rejection = Propagated 'e | Error string

text \<open>
  Lines 18 to 21. An object is truthy, so the test of line 19 asks whether the factory
  was given default options; spreading \<^verbatim>\<open>undefined\<close> adds no property.
\<close>

definition spread :: "init option \<Rightarrow> init" where
  "spread obj = (case obj of None \<Rightarrow> Map.empty | Some m \<Rightarrow> m)"

definition merge_init :: "init option \<Rightarrow> init option \<Rightarrow> init option" where
  "merge_init defaultOpts init =
     (if defaultOpts \<noteq> None then Some (spread defaultOpts ++ spread init) else init)"

text \<open>Lines 24 to 26; optional chaining makes a missing header falsy.\<close>

definition isJson :: "('w, 'e) response \<Rightarrow> bool" where
  "isJson res =
     (case res_headers res ''content-type'' of
        None \<Rightarrow> False
      | Some v \<Rightarrow> str_includes v ''application/json'')"

text \<open>
  Line 27: one read of the body, \<^verbatim>\<open>res.json()\<close> or \<^verbatim>\<open>res.text()\<close>, in the world the
  primitive left; the text is a string value.
\<close>

definition result :: "('w, 'e) response \<Rightarrow> 'w \<Rightarrow> ('e + js_value) \<times> 'w" where
  "result res w =
     (if isJson res then res_json res w
      else (case res_text res w of (t, w') \<Rightarrow> (map_sum id JStr t, w')))"

text \<open>Lines 33 to 35: the template literal of the error message.\<close>

definition message :: "('w, 'e) response \<Rightarrow> js_value \<Rightarrow> string" where
  "message res r =
     ''Request to '' @ res_url res @ '' failed with status '' @ number_to_string (res_status res)
       @ '' and response '' @ [CHR 0x22]
       @ (if isJson res then JSON_stringify (res_body res) else to_string r)
       @ [CHR 0x22] @ ''.''"

text \<open>
  The bound client: \<open>getClient fetch defaultOpts\<close> applied to the parameters of one call,
  \<^verbatim>\<open>params[0]\<close> and \<^verbatim>\<open>params[1]\<close>. Line 22 awaits the primitive, line 27 the body, each
  in the world the step before left, and each \<^verbatim>\<open>await\<close> rethrows a rejection, which
  ends the call; lines 29 to 37 return the body or throw the error, by the ok-flag. The
  closure assigns to none of the variables it captures, \<^verbatim>\<open>fetch\<close> and \<^verbatim>\<open>defaultOpts\<close>, so
  the world is all the state a call can change.
\<close>

definition getClient ::
  "('w, 'e) Fetch \<Rightarrow> init option \<Rightarrow> string \<Rightarrow> init option \<Rightarrow> 'w \<Rightarrow> ('e rejection + js_value) \<times> 'w"
where
  "getClient fetch defaultOpts input init w =
     (case fetch input (merge_init defaultOpts init) w of
        (Inl e, w1) \<Rightarrow> (Inl (Propagated e), w1)
      | (Inr res, w1) \<Rightarrow>
          (case result res w1 of
             (Inl e, w2) \<Rightarrow> (Inl (Propagated e), w2)
           | (Inr r, w2) \<Rightarrow>
               if res_ok res then (Inr r, w2)
               else (Inl (Error (message res r)), w2)))"

section \<open>The response helpers\<close>

text \<open>
  \<^verbatim>\<open>new Response(msg, { status })\<close> is the platform's constructor. As the Fetch Standard
  defines it, \<^verbatim>\<open>status\<close> is an \<^verbatim>\<open>unsigned short\<close> member of the init dictionary, so
  the number passed is first reduced modulo \<open>2\<^sup>1\<^sup>6\<close>; the constructor then throws a
  \<^verbatim>\<open>RangeError\<close> unless the status is in the range 200 to 599, and a \<^verbatim>\<open>TypeError\<close>
  when a body is given (a string always is one) with a null-body status. The response
  built is observed through its status and the text of its body.
\<close>

datatype js_exception = RangeError | TypeError

record Response =
  status :: int
  bodyText :: string

definition null_body_status :: "int \<Rightarrow> bool" where
  "null_body_status s = (s = 101 \<or> s = 103 \<or> s = 204 \<or> s = 205 \<or> s = 304)"

definition new_Response :: "string \<Rightarrow> int \<Rightarrow> js_exception + Response" where
  "new_Response body st =
     (let s = st mod 65536 in
      if s < 200 \<or> 599 < s then Inl RangeError
      else if null_body_status s then Inl TypeError
      else Inr \<lparr>status = s, bodyText = body\<rparr>)"

text \<open>
  Lines 49 and 59. A default parameter value stands in for an argument that is omitted
  (\<open>None\<close>).
\<close>

definition ok :: "int option \<Rightarrow> string option \<Rightarrow> js_exception + Response" where
  "ok st msg =
     new_Response (case msg of None \<Rightarrow> ''Ok'' | Some m \<Rightarrow> m)
       (case st of None \<Rightarrow> 200 | Some s \<Rightarrow> s)"

definition err :: "int option \<Rightarrow> string option \<Rightarrow> js_exception + Response" where
  "err st msg =
     new_Response (case msg of None \<Rightarrow> ''Bad Request'' | Some m \<Rightarrow> m)
       (case st of None \<Rightarrow> 400 | Some s \<Rightarrow> s)"

section \<open>Test doubles of the primitive and of its responses\<close>

text \<open>
  A response-like double with the given status line and content type, whose \<^verbatim>\<open>json()\<close>
  and \<^verbatim>\<open>text()\<close> give fixed outcomes at every read and leave the world alone.
\<close>

definition a_response ::
  "bool \<Rightarrow> int \<Rightarrow> string \<Rightarrow> string option \<Rightarrow> ('e + js_value) \<Rightarrow> ('e + string)
     \<Rightarrow> ('w, 'e) response"
where
  "a_response k st u ct j t =
     \<lparr>res_ok = k, res_status = st, res_url = u,
      res_headers = (\<lambda>name. if name = ''content-type'' then ct else None),
      res_body = JReadableStream,
      res_json = (\<lambda>w. (j, w)), res_text = (\<lambda>w. (t, w))\<rparr>"

text \<open>
  A response as the platform builds it: its body can be read once. The world is the list
  of the bodies already read, each known by a number; the first read of body \<open>i\<close> gives
  the outcome and marks the body, any later read rejects with a \<^verbatim>\<open>TypeError\<close>.
\<close>

definition one_shot ::
  "nat \<Rightarrow> bool \<Rightarrow> int \<Rightarrow> string \<Rightarrow> string option \<Rightarrow> (string + js_value) \<Rightarrow> (string + string)
     \<Rightarrow> (nat list, string) response"
where
  "one_shot i k st u ct j t =
     \<lparr>res_ok = k, res_status = st, res_url = u,
      res_headers = (\<lambda>name. if name = ''content-type'' then ct else None),
      res_body = JReadableStream,
      res_json = (\<lambda>used. if i \<in> set used then (Inl ''TypeError: body already read'', used)
                          else (j, i # used)),
      res_text = (\<lambda>used. if i \<in> set used then (Inl ''TypeError: body already read'', used)
                          else (t, i # used))\<rparr>"

text \<open>A primitive that resolves to one and the same response and leaves the world alone.\<close>

definition respond :: "('w, 'e) response \<Rightarrow> ('w, 'e) Fetch" where
  "respond res input init w = (Inr res, w)"

text \<open>A primitive that rejects with a fixed value.\<close>

definition reject :: "'e \<Rightarrow> ('w, 'e) Fetch" where
  "reject e input init w = (Inl e, w)"

text \<open>
  A primitive that resolves, at every call, to a new platform response for the same
  answer, with a body no one has read and the target as its url.
\<close>

definition fresh_id :: "nat list \<Rightarrow> nat" where
  "fresh_id used = Suc (fold max used 0)"

definition serve ::
  "bool \<Rightarrow> int \<Rightarrow> string option \<Rightarrow> (string + js_value) \<Rightarrow> (string + string)
     \<Rightarrow> (nat list, string) Fetch"
where
  "serve k st ct j t input init used = (Inr (one_shot (fresh_id used) k st input ct j t), used)"

text \<open>
  A spy around a primitive: it keeps the list of the calls received so far, each with
  its target and its options, next to the world of the primitive it wraps, and hands on
  what that primitive answers. Reading the body of a response it hands on acts on the
  wrapped primitive's world, and cannot touch the list.
\<close>

definition behind_spy :: "('u, 'e) response \<Rightarrow> ('l \<times> 'u, 'e) response" where
  "behind_spy res =
     \<lparr>res_ok = res_ok res, res_status = res_status res, res_url = res_url res,
      res_headers = res_headers res, res_body = res_body res,
      res_json = (\<lambda>w. case res_json res (snd w) of (out, u') \<Rightarrow> (out, (fst w, u'))),
      res_text = (\<lambda>w. case res_text res (snd w) of (out, u') \<Rightarrow> (out, (fst w, u')))\<rparr>"

definition spy ::
  "('u, 'e) Fetch \<Rightarrow> ((string \<times> init option) list \<times> 'u, 'e) Fetch"
where
  "spy fetch input init w =
     (case fetch input init (snd w) of
        (out, u') \<Rightarrow> (map_sum id behind_spy out, (fst w @ [(input, init)], u')))"

text \<open>
  What a caller sees of the primitive's reply: the value it rejected with, or, of the
  response it resolved to, the ok-flag, the status, the url, the content type, the body
  property, and what reading the body as JSON and as text yields in the world the
  primitive left.
\<close>

definition seen ::
  "('w, 'e) response \<Rightarrow> 'w
     \<Rightarrow> bool \<times> int \<times> string \<times> string option \<times> js_value \<times> ('e + js_value) \<times> ('e + string)"
where
  "seen res w =
     (res_ok res, res_status res, res_url res, res_headers res ''content-type'', res_body res,
      fst (res_json res w), fst (res_text res w))"

definition reply ::
  "('w, 'e) Fetch \<Rightarrow> string \<Rightarrow> init option \<Rightarrow> 'w
     \<Rightarrow> 'e + bool \<times> int \<times> string \<times> string option \<times> js_value \<times> ('e + js_value) \<times> ('e + string)"
where
  "reply fetch input init w =
     (case fetch input init w of
        (Inl e, w1) \<Rightarrow> Inl e
      | (Inr res, w1) \<Rightarrow> Inr (seen res w1))"

section \<open>Facts about the platform functions and the doubles\<close>

lemma str_includes_iff: "str_includes str search \<longleftrightarrow> (\<exists>before after. str = before @ search @ after)"
  by (simp add: str_includes_def sublist_def)

lemma number_to_string_404: "number_to_string 404 = ''404''"
  by code_simp

lemma number_to_string_500: "number_to_string 500 = ''500''"
  by code_simp

lemma a_response_sel [simp]:
  "res_ok (a_response k st u ct j t) = k"
  "res_status (a_response k st u ct j t) = st"
  "res_url (a_response k st u ct j t) = u"
  "res_headers (a_response k st u ct j t) ''content-type'' = ct"
  "res_body (a_response k st u ct j t) = JReadableStream"
  "res_json (a_response k st u ct j t) w = (j, w)"
  "res_text (a_response k st u ct j t) w = (t, w)"
  by (simp_all add: a_response_def)

lemma one_shot_sel [simp]:
  "res_ok (one_shot i k st u ct j t) = k"
  "res_status (one_shot i k st u ct j t) = st"
  "res_url (one_shot i k st u ct j t) = u"
  "res_headers (one_shot i k st u ct j t) ''content-type'' = ct"
  "res_body (one_shot i k st u ct j t) = JReadableStream"
  "res_json (one_shot i k st u ct j t) used =
     (if i \<in> set used then (Inl ''TypeError: body already read'', used) else (j, i # used))"
  "res_text (one_shot i k st u ct j t) used =
     (if i \<in> set used then (Inl ''TypeError: body already read'', used) else (t, i # used))"
  by (simp_all add: one_shot_def)

lemma behind_spy_sel [simp]:
  "res_ok (behind_spy res) = res_ok res"
  "res_status (behind_spy res) = res_status res"
  "res_url (behind_spy res) = res_url res"
  "res_headers (behind_spy res) = res_headers res"
  "res_body (behind_spy res) = res_body res"
  "res_json (behind_spy res) (l, u) = (fst (res_json res u), (l, snd (res_json res u)))"
  "res_text (behind_spy res) (l, u) = (fst (res_text res u), (l, snd (res_text res u)))"
  by (simp_all add: behind_spy_def split: prod.split)

lemma isJson_a_response:
  "isJson (a_response k st u ct j t) =
     (case ct of None \<Rightarrow> False | Some v \<Rightarrow> str_includes v ''application/json'')"
  by (simp add: isJson_def)

lemma isJson_one_shot:
  "isJson (one_shot i k st u ct j t) =
     (case ct of None \<Rightarrow> False | Some v \<Rightarrow> str_includes v ''application/json'')"
  by (simp add: isJson_def)

lemma isJson_behind_spy: "isJson (behind_spy res) = isJson res"
  by (simp add: isJson_def)

lemma str_includes_self: "str_includes s s"
  by (simp add: str_includes_def)

lemma mixed_case_not_included: "\<not> str_includes ''Application/JSON'' ''application/json''"
  by (simp add: str_includes_def sublist_code prefix_code)

lemma fold_max_start: "m \<le> fold max xs (m :: nat)"
proof (induction xs arbitrary: m)
  case Nil
  show ?case by simp
next
  case (Cons y ys)
  have "m \<le> max y m" by simp
  also have "max y m \<le> fold max ys (max y m)" by (rule Cons.IH)
  finally show ?case by simp
qed

lemma fold_max_upper: "x \<in> set xs \<Longrightarrow> x \<le> fold max xs (m :: nat)"
proof (induction xs arbitrary: m)
  case Nil
  then show ?case by simp
next
  case (Cons y ys)
  show ?case
  proof (cases "x = y")
    case True
    have "y \<le> max y m" by simp
    also have "max y m \<le> fold max ys (max y m)" by (rule fold_max_start)
    finally show ?thesis using True by simp
  next
    case False
    with Cons.prems have "x \<in> set ys" by simp
    then have "x \<le> fold max ys (max y m)" by (rule Cons.IH)
    then show ?thesis by simp
  qed
qed

lemma fresh_id_unused: "fresh_id used \<notin> set used"
proof
  assume "fresh_id used \<in> set used"
  then have "fresh_id used \<le> fold max used 0"
    by (rule fold_max_upper)
  then show False
    by (simp add: fresh_id_def)
qed

section \<open>The bound client, step by step\<close>

lemma result_outcome:
  "fst (result res w) =
     (if isJson res then fst (res_json res w) else map_sum id JStr (fst (res_text res w)))"
  by (simp add: result_def split: prod.split)

lemma result_world:
  "snd (result res w) = (if isJson res then snd (res_json res w) else snd (res_text res w))"
  by (simp add: result_def split: prod.split)

lemma getClient_resolved:
  assumes "fetch input (merge_init defaultOpts init) w = (Inr res, w1)"
  shows "getClient fetch defaultOpts input init w =
           (case fst (result res w1) of
              Inl e \<Rightarrow> (Inl (Propagated e), snd (result res w1))
            | Inr r \<Rightarrow>
                if res_ok res then (Inr r, snd (result res w1))
                else (Inl (Error (message res r)), snd (result res w1)))"
  using assms by (simp add: getClient_def split: prod.split sum.split)

lemma getClient_rejected:
  assumes "fetch input (merge_init defaultOpts init) w = (Inl e, w1)"
  shows "getClient fetch defaultOpts input init w = (Inl (Propagated e), w1)"
  using assms by (simp add: getClient_def)

lemma getClient_outcome:
  "fst (getClient fetch defaultOpts input init w) =
     (case fetch input (merge_init defaultOpts init) w of
        (Inl e, w1) \<Rightarrow> Inl (Propagated e)
      | (Inr res, w1) \<Rightarrow>
          (case fst (result res w1) of
             Inl e \<Rightarrow> Inl (Propagated e)
           | Inr r \<Rightarrow> if res_ok res then Inr r else Inl (Error (message res r))))"
  by (simp add: getClient_def split: prod.split sum.split)

lemma message_of_json_response: "isJson res \<Longrightarrow> message res r = message res r'"
  by (simp add: message_def)

lemma json_failure_renders_res_body:
  assumes "fetch input (merge_init defaultOpts init) w = (Inr res, w1)"
    and "\<not> res_ok res" and "isJson res" and "fst (res_json res w1) = Inr v"
  shows "fst (getClient fetch defaultOpts input init w) =
           Inl (Error (''Request to '' @ res_url res @ '' failed with status ''
                         @ number_to_string (res_status res) @ '' and response '' @ [CHR 0x22]
                         @ JSON_stringify (res_body res) @ [CHR 0x22] @ ''.''))"
  using assms by (simp add: getClient_resolved result_outcome message_def)

lemma spy_calls:
  "fst (snd (getClient (spy fetch) defaultOpts input init (calls, u))) =
     calls @ [(input, merge_init defaultOpts init)]"
proof (cases "fetch input (merge_init defaultOpts init) u")
  case (Pair out u1)
  show ?thesis
  proof (cases out)
    case (Inl e)
    with Pair show ?thesis
      by (simp add: getClient_def spy_def)
  next
    case (Inr res)
    with Pair have "spy fetch input (merge_init defaultOpts init) (calls, u) =
        (Inr (behind_spy res), (calls @ [(input, merge_init defaultOpts init)], u1))"
      by (simp add: spy_def)
    then show ?thesis
      by (simp add: getClient_resolved result_world isJson_behind_spy split: sum.split)
  qed
qed

lemma respond_resolves: "respond res input init w = (Inr res, w)"
  by (simp add: respond_def)

lemma reject_rejects: "reject e input init w = (Inl e, w)"
  by (simp add: reject_def)

lemma canned_reply:
  "reply (respond (a_response k st u ct j t)) input init w = Inr (k, st, u, ct, JReadableStream, j, t)"
  by (simp add: reply_def respond_def seen_def)

lemma serve_reply:
  "reply (serve k st ct j t) input init used = Inr (k, st, input, ct, JReadableStream, j, t)"
  by (simp add: reply_def serve_def seen_def fresh_id_unused)

section \<open>The response helpers: claims C6, C7 and C10\<close>

text \<open>
  Claim C6. Called with no arguments, \<open>ok\<close> produces a response with status 200 and body
  text "Ok", and \<open>ok(201, "Created")\<close> one with status 201 and body "Created"; \<open>err\<close> with
  no arguments produces status 400 and body "Bad Request", and \<open>err(404, "Not Found")\<close>
  status 404 and body "Not Found".
\<close>

theorem helpers_defaults_and_arguments:
  "ok None None = Inr \<lparr>status = 200, bodyText = ''Ok''\<rparr>
   \<and> ok (Some 201) (Some ''Created'') = Inr \<lparr>status = 201, bodyText = ''Created''\<rparr>
   \<and> err None None = Inr \<lparr>status = 400, bodyText = ''Bad Request''\<rparr>
   \<and> err (Some 404) (Some ''Not Found'') = Inr \<lparr>status = 404, bodyText = ''Not Found''\<rparr>"
  by (simp add: ok_def err_def new_Response_def null_body_status_def)

text \<open>
  Claim C7 says that the helpers build a response for every integer status. They do no
  validation of their own, but the constructor they call does: a status of 700 is
  refused with a \<^verbatim>\<open>RangeError\<close>, and a status of 204 with a \<^verbatim>\<open>TypeError\<close>, since the
  message is a body.
\<close>

theorem helpers_refuse_status_700:
  "ok (Some 700) None = Inl RangeError \<and> err (Some 700) None = Inl RangeError
   \<and> ok (Some 204) None = Inl TypeError \<and> err (Some 204) None = Inl TypeError"
  by (simp add: ok_def err_def new_Response_def null_body_status_def)

text \<open>
  Not every status outside 200 to 599 is refused: 65736 is 200 modulo \<open>2\<^sup>1\<^sup>6\<close>, and
  the response built carries 200.
\<close>

lemma ok_status_wraps: "ok (Some 65736) None = Inr \<lparr>status = 200, bodyText = ''Ok''\<rparr>"
  by (simp add: ok_def new_Response_def null_body_status_def)

text \<open>
  Claim C7, amended. The helpers build a response carrying the status they are given
  exactly for the integer statuses from 200 to 599 that are not null-body statuses
  (204, 205, 304), whichever helper is called and whatever the message: neither helper
  looks at the status itself, and for any other status no response carrying it is built.
\<close>

theorem helpers_carry_valid_status:
  "((\<exists>r. ok (Some s) msg = Inr r \<and> status r = s)
      \<longleftrightarrow> 200 \<le> s \<and> s \<le> 599 \<and> \<not> null_body_status s)
   \<and> ((\<exists>r. err (Some s) msg = Inr r \<and> status r = s)
      \<longleftrightarrow> 200 \<le> s \<and> s \<le> 599 \<and> \<not> null_body_status s)
   \<and> (200 \<le> s \<and> s \<le> 599 \<and> \<not> null_body_status s \<longrightarrow>
        ok (Some s) msg =
          Inr \<lparr>status = s, bodyText = (case msg of None \<Rightarrow> ''Ok'' | Some m \<Rightarrow> m)\<rparr>
        \<and> err (Some s) msg =
          Inr \<lparr>status = s, bodyText = (case msg of None \<Rightarrow> ''Bad Request'' | Some m \<Rightarrow> m)\<rparr>)"
proof -
  have built: "new_Response b s = Inr \<lparr>status = s, bodyText = b\<rparr>"
    if "200 \<le> s" "s \<le> 599" "\<not> null_body_status s" for b
    using that by (simp add: new_Response_def)
  have only: "200 \<le> s \<and> s \<le> 599 \<and> \<not> null_body_status s"
    if "new_Response b s = Inr r" "status r = s" for b r
  proof -
    from that(1) have range: "200 \<le> s mod 65536" "s mod 65536 \<le> 599"
      and body: "\<not> null_body_status (s mod 65536)"
      and r: "r = \<lparr>status = s mod 65536, bodyText = b\<rparr>"
      by (auto simp add: new_Response_def Let_def split: if_splits)
    from r that(2) have "s mod 65536 = s"
      by simp
    with range body show ?thesis
      by simp
  qed
  have carried: "(\<exists>r. new_Response b s = Inr r \<and> status r = s)
      \<longleftrightarrow> 200 \<le> s \<and> s \<le> 599 \<and> \<not> null_body_status s" for b
    using built [of b] only [of b] by auto
  show ?thesis
    using carried built by (simp add: ok_def err_def)
qed

text \<open>
  The amended claim at 404, for \<open>ok\<close> and for \<open>err\<close>, each with its default message, and
  at 65736, which no response built by \<open>ok\<close> carries.
\<close>

theorem helpers_carry_valid_status_witness:
  "(200 :: int) \<le> 404 \<and> (404 :: int) \<le> 599 \<and> \<not> null_body_status 404
   \<and> ok (Some 404) None = Inr \<lparr>status = 404, bodyText = ''Ok''\<rparr>
   \<and> err (Some 404) None = Inr \<lparr>status = 404, bodyText = ''Bad Request''\<rparr>
   \<and> \<not> (\<exists>r. ok (Some 65736) None = Inr r \<and> status r = 65736)"
proof -
  have valid: "(200 :: int) \<le> 404 \<and> (404 :: int) \<le> 599 \<and> \<not> null_body_status 404"
    by (simp add: null_body_status_def)
  from helpers_carry_valid_status [of 404 None] helpers_carry_valid_status [of 65736 None] valid
  show ?thesis
    by simp
qed

text \<open>
  Claim C10. Given both arguments, \<open>ok\<close> and \<open>err\<close> produce the same outcome; each helper
  is the other one applied to its own defaults (200 and "Ok", 400 and "Bad Request")
  where an argument is omitted.
\<close>

theorem ok_err_equal_on_explicit_arguments:
  "ok (Some s) (Some m) = err (Some s) (Some m)
   \<and> ok st msg = err (Some (case st of None \<Rightarrow> 200 | Some s \<Rightarrow> s))
                     (Some (case msg of None \<Rightarrow> ''Ok'' | Some m \<Rightarrow> m))
   \<and> err st msg = ok (Some (case st of None \<Rightarrow> 400 | Some s \<Rightarrow> s))
                     (Some (case msg of None \<Rightarrow> ''Bad Request'' | Some m \<Rightarrow> m))"
  by (simp add: ok_def err_def)

section \<open>The options the primitive receives: claim C2\<close>

text \<open>
  Claim C2. Whatever the bound client is called with and whatever the primitive answers,
  the primitive is called once, with the target and the shallow merge of the default
  options under the per-call options: a key of the per-call options wins and its value
  is taken whole. With defaults \<open>{headers: {A: "1"}}\<close> and per-call options
  \<open>{headers: {B: "2"}}\<close> the primitive receives \<open>{headers: {B: "2"}}\<close>; with no per-call
  options it receives the defaults, and with neither it receives no options.
\<close>

theorem getClient_passes_shallow_merge:
  "fst (snd (getClient (spy fetch) defaultOpts input init (calls, u))) =
     calls @ [(input,
       case defaultOpts of
         None \<Rightarrow> init
       | Some d \<Rightarrow>
           Some (\<lambda>k. case (case init of None \<Rightarrow> None | Some i \<Rightarrow> i k) of
                        None \<Rightarrow> d k
                      | Some v \<Rightarrow> Some v))]
   \<and> fst (snd (getClient (spy fetch) (Some [''headers'' \<mapsto> JObj [(''A'', JStr ''1'')]]) input
                (Some [''headers'' \<mapsto> JObj [(''B'', JStr ''2'')]]) ([], u))) =
       [(input, Some [''headers'' \<mapsto> JObj [(''B'', JStr ''2'')]])]
   \<and> fst (snd (getClient (spy fetch) (Some d) input None ([], u))) = [(input, Some d)]
   \<and> fst (snd (getClient (spy fetch) None input None ([], u))) = [(input, None)]"
  by (auto simp add: spy_calls merge_init_def spread_def map_add_def fun_eq_iff
      split: option.split)

section \<open>Success and failure of the bound client: claims C1, C3, C4 and C5\<close>

text \<open>
  Claim C1 says that a RequestFailure is raised exactly when the ok-flag is false. A
  response with a false ok-flag, a JSON content type and a body that \<^verbatim>\<open>res.json()\<close>
  cannot parse makes the bound client reject with the parser's error instead: line 27
  awaits the body before line 29 looks at the flag.
\<close>

theorem getClient_unparsable_failure_body:
  "\<not> res_ok (a_response False 500 ''https://x/y'' (Some ''application/json'')
                (Inl ''SyntaxError'') (Inr ''<html>'') :: (unit, string) response)
   \<and> fst (getClient
            (respond (a_response False 500 ''https://x/y'' (Some ''application/json'')
                        (Inl ''SyntaxError'') (Inr ''<html>'')))
            None ''https://x/y'' None ())
       = Inl (Propagated ''SyntaxError'')"
  by (simp add: getClient_outcome respond_resolves result_outcome isJson_a_response
      str_includes_self)

text \<open>
  Claim C1, amended. When the primitive resolves to a response, the bound client raises
  a RequestFailure exactly when the ok-flag is false and the body-reading step
  succeeded; when the ok-flag is true its outcome is that of the body-reading step, the
  parsed or text body. In particular, for a response with a false ok-flag, status 404,
  url "https://x/y", a content type that is not JSON and the text "not found", it
  rejects with an error whose message contains "https://x/y", "404" and "not found".
\<close>

theorem getClient_request_failure:
  assumes "fetch input (merge_init defaultOpts init) w = (Inr res, w1)"
  shows "((\<exists>msg. fst (getClient fetch defaultOpts input init w) = Inl (Error msg))
            \<longleftrightarrow> \<not> res_ok res \<and> (\<exists>r. fst (result res w1) = Inr r))
    \<and> (res_ok res \<longrightarrow>
          fst (getClient fetch defaultOpts input init w)
            = map_sum Propagated id (fst (result res w1)))
    \<and> (\<not> res_ok res \<and> res_status res = 404 \<and> res_url res = ''https://x/y''
          \<and> \<not> isJson res \<and> fst (res_text res w1) = Inr ''not found''
        \<longrightarrow> (\<exists>msg. fst (getClient fetch defaultOpts input init w) = Inl (Error msg)
              \<and> str_includes msg ''https://x/y'' \<and> str_includes msg ''404''
              \<and> str_includes msg ''not found''))"
proof -
  have outcome: "fst (getClient fetch defaultOpts input init w) =
      (case fst (result res w1) of
         Inl e \<Rightarrow> Inl (Propagated e)
       | Inr r \<Rightarrow> if res_ok res then Inr r else Inl (Error (message res r)))"
    using assms by (simp add: getClient_outcome)
  have iff: "(\<exists>msg. fst (getClient fetch defaultOpts input init w) = Inl (Error msg))
      \<longleftrightarrow> \<not> res_ok res \<and> (\<exists>r. fst (result res w1) = Inr r)"
    unfolding outcome by (cases "fst (result res w1)") auto
  have success: "fst (getClient fetch defaultOpts input init w)
      = map_sum Propagated id (fst (result res w1))"
    if "res_ok res"
    unfolding outcome using that by (cases "fst (result res w1)") auto
  have example: "\<exists>msg. fst (getClient fetch defaultOpts input init w) = Inl (Error msg)
      \<and> str_includes msg ''https://x/y'' \<and> str_includes msg ''404''
      \<and> str_includes msg ''not found''"
    if "\<not> res_ok res" "res_status res = 404" "res_url res = ''https://x/y''"
      "\<not> isJson res" "fst (res_text res w1) = Inr ''not found''"
  proof -
    have body: "fst (result res w1) = Inr (JStr ''not found'')"
      using that by (simp add: result_outcome)
    have rendered: "message res (JStr ''not found'') =
        ''Request to https://x/y failed with status 404 and response ''
          @ [CHR 0x22] @ ''not found'' @ [CHR 0x22] @ ''.''"
      using that by (simp add: message_def number_to_string_404)
    have "str_includes (message res (JStr ''not found'')) ''https://x/y''"
      and "str_includes (message res (JStr ''not found'')) ''404''"
      and "str_includes (message res (JStr ''not found'')) ''not found''"
      unfolding rendered str_includes_def by (simp_all add: sublist_code prefix_code)
    then show ?thesis
      unfolding outcome using body that(1) by simp
  qed
  from iff success example show ?thesis
    by blast
qed

text \<open>
  The amended claim at the response of the specification's example: the message is
  \<open>Request to https://x/y failed with status 404 and response "not found".\<close>
\<close>

theorem getClient_request_failure_witness:
  "respond (a_response False 404 ''https://x/y'' None (Inl ''unused'') (Inr ''not found''))
       ''https://x/y'' (merge_init None None) ()
     = (Inr (a_response False 404 ''https://x/y'' None (Inl ''unused'') (Inr ''not found'')), ())
   \<and> \<not> isJson (a_response False 404 ''https://x/y'' None (Inl ''unused'') (Inr ''not found'')
               :: (unit, string) response)
   \<and> (\<exists>msg. fst (getClient
                 (respond (a_response False 404 ''https://x/y'' None (Inl ''unused'')
                            (Inr ''not found'')))
                 None ''https://x/y'' None ()) = Inl (Error msg)
            \<and> str_includes msg ''https://x/y'' \<and> str_includes msg ''404''
            \<and> str_includes msg ''not found'')"
proof -
  let ?res = "a_response False 404 ''https://x/y'' None (Inl ''unused'') (Inr ''not found'')
                :: (unit, string) response"
  have resolved: "respond ?res ''https://x/y'' (merge_init None None) () = (Inr ?res, ())"
    by (rule respond_resolves)
  have plain: "\<not> isJson ?res"
    by (simp add: isJson_a_response)
  from getClient_request_failure
         [of "respond ?res" "''https://x/y''" None None "()" ?res "()", OF resolved]
       resolved plain
  show ?thesis
    by simp
qed

text \<open>
  Claim C3. For every response with a true ok-flag whose content-type header value
  contains "application/json", the bound client resolves to the value \<^verbatim>\<open>res.json()\<close>
  parsed from the body.
\<close>

theorem getClient_resolves_parsed_json:
  assumes "fetch input (merge_init defaultOpts init) w = (Inr res, w1)"
    and "res_ok res"
    and "res_headers res ''content-type'' = Some ct"
    and "str_includes ct ''application/json''"
    and "fst (res_json res w1) = Inr v"
  shows "fst (getClient fetch defaultOpts input init w) = Inr v"
  using assms by (simp add: getClient_outcome result_outcome isJson_def)

text \<open>The body \<open>{"dogs":[{"name":"Rex"}]}\<close>, served as \<open>application/json; charset=utf-8\<close>.\<close>

theorem getClient_resolves_parsed_json_witness:
  "respond (a_response True 200 ''https://api.dogs.awesome''
              (Some ''application/json; charset=utf-8'')
              (Inr (JObj [(''dogs'', JArr [JObj [(''name'', JStr ''Rex'')]])]))
              (Inl ''body used''))
       ''https://api.dogs.awesome'' (merge_init None None) ()
     = (Inr (a_response True 200 ''https://api.dogs.awesome''
              (Some ''application/json; charset=utf-8'')
              (Inr (JObj [(''dogs'', JArr [JObj [(''name'', JStr ''Rex'')]])]))
              (Inl ''body used'')), ())
   \<and> str_includes ''application/json; charset=utf-8'' ''application/json''
   \<and> fst (getClient
            (respond (a_response True 200 ''https://api.dogs.awesome''
                        (Some ''application/json; charset=utf-8'')
                        (Inr (JObj [(''dogs'', JArr [JObj [(''name'', JStr ''Rex'')]])]))
                        (Inl ''body used'')))
            None ''https://api.dogs.awesome'' None ())
       = Inr (JObj [(''dogs'', JArr [JObj [(''name'', JStr ''Rex'')]])])"
proof -
  let ?dogs = "JObj [(''dogs'', JArr [JObj [(''name'', JStr ''Rex'')]])]"
  let ?res = "a_response True 200 ''https://api.dogs.awesome''
                (Some ''application/json; charset=utf-8'') (Inr ?dogs) (Inl ''body used'')
                :: (unit, string) response"
  have resolved: "respond ?res ''https://api.dogs.awesome'' (merge_init None None) () = (Inr ?res, ())"
    by (rule respond_resolves)
  have json: "str_includes ''application/json; charset=utf-8'' ''application/json''"
    by (simp add: str_includes_def sublist_code prefix_code)
  have "fst (getClient (respond ?res) None ''https://api.dogs.awesome'' None ()) = Inr ?dogs"
    using getClient_resolves_parsed_json
            [of "respond ?res" "''https://api.dogs.awesome''" None None "()" ?res "()"
                "''application/json; charset=utf-8''" ?dogs]
          resolved json
    by simp
  with resolved json show ?thesis
    by simp
qed

text \<open>
  Claim C4. For every response with a true ok-flag whose content-type header is missing,
  or has a value that does not contain "application/json", the bound client resolves to
  the raw text body. The search is case-sensitive: "Application/JSON" does not contain
  "application/json".
\<close>

theorem getClient_resolves_text:
  assumes "fetch input (merge_init defaultOpts init) w = (Inr res, w1)"
    and "res_ok res"
    and "res_headers res ''content-type'' = None
         \<or> (\<exists>ct. res_headers res ''content-type'' = Some ct
                \<and> \<not> str_includes ct ''application/json'')"
    and "fst (res_text res w1) = Inr t"
  shows "fst (getClient fetch defaultOpts input init w) = Inr (JStr t)
         \<and> \<not> str_includes ''Application/JSON'' ''application/json''"
proof -
  have "\<not> isJson res"
    using assms(3) by (auto simp add: isJson_def)
  then have "fst (getClient fetch defaultOpts input init w) = Inr (JStr t)"
    using assms by (simp add: getClient_outcome result_outcome)
  then show ?thesis
    by (simp add: mixed_case_not_included)
qed

text \<open>
  The body "pong" with no content-type header, and with the header \<open>Application/JSON\<close>,
  whose body is then not parsed.
\<close>

theorem getClient_resolves_text_witness:
  "res_headers (a_response True 200 ''https://x/ping'' None (Inl ''unused'') (Inr ''pong'')
                 :: (unit, string) response)
       ''content-type'' = None
   \<and> fst (getClient
            (respond (a_response True 200 ''https://x/ping'' None (Inl ''unused'') (Inr ''pong'')))
            None ''https://x/ping'' None ())
       = Inr (JStr ''pong'')
   \<and> res_headers (a_response True 200 ''https://x/ping'' (Some ''Application/JSON'')
                    (Inr (JStr ''parsed'')) (Inr ''pong'') :: (unit, string) response)
       ''content-type'' = Some ''Application/JSON''
   \<and> \<not> str_includes ''Application/JSON'' ''application/json''
   \<and> fst (getClient
            (respond (a_response True 200 ''https://x/ping'' (Some ''Application/JSON'')
                        (Inr (JStr ''parsed'')) (Inr ''pong'') :: (unit, string) response))
            None ''https://x/ping'' None ())
       = Inr (JStr ''pong'')"
proof -
  let ?bare = "a_response True 200 ''https://x/ping'' None (Inl ''unused'') (Inr ''pong'')
                 :: (unit, string) response"
  let ?mixed = "a_response True 200 ''https://x/ping'' (Some ''Application/JSON'')
                  (Inr (JStr ''parsed'')) (Inr ''pong'') :: (unit, string) response"
  have bare: "fst (getClient (respond ?bare) None ''https://x/ping'' None ()) = Inr (JStr ''pong'')"
    using getClient_resolves_text
            [of "respond ?bare" "''https://x/ping''" None None "()" ?bare "()" "''pong''"]
    by (simp add: respond_resolves)
  have mixed: "fst (getClient (respond ?mixed) None ''https://x/ping'' None ()) = Inr (JStr ''pong'')"
    using getClient_resolves_text
            [of "respond ?mixed" "''https://x/ping''" None None "()" ?mixed "()" "''pong''"]
    by (simp add: respond_resolves mixed_case_not_included)
  from bare mixed show ?thesis
    by (simp add: mixed_case_not_included)
qed

text \<open>
  Claim C5 says that for a failed response with a JSON content type the message carries
  the JSON-stringification of the parsed body. Line 34 stringifies \<^verbatim>\<open>res.body\<close>, the
  stream, and not \<^verbatim>\<open>result\<close>: for the body \<open>{"error":"boom"}\<close> with status 500 the
  message ends in \<open>response "{}".\<close> and differs from the one that carries the
  stringified parsed value.
\<close>

theorem getClient_json_failure_message:
  "fst (getClient
          (respond (a_response False 500 ''https://x/y'' (Some ''application/json'')
                      (Inr (JObj [(''error'', JStr ''boom'')])) (Inl ''body used'')))
          None ''https://x/y'' None ())
     = Inl (Error (''Request to https://x/y failed with status 500 and response ''
                     @ [CHR 0x22] @ ''{}'' @ [CHR 0x22] @ ''.''))
   \<and> fst (getClient
          (respond (a_response False 500 ''https://x/y'' (Some ''application/json'')
                      (Inr (JObj [(''error'', JStr ''boom'')])) (Inl ''body used'')))
          None ''https://x/y'' None ())
     \<noteq> Inl (Error (''Request to https://x/y failed with status 500 and response ''
                     @ [CHR 0x22] @ JSON_stringify (JObj [(''error'', JStr ''boom'')])
                     @ [CHR 0x22] @ ''.''))
   \<and> JSON_stringify (JObj [(''error'', JStr ''boom'')])
       = ''{'' @ [CHR 0x22] @ ''error'' @ [CHR 0x22] @ '':'' @ [CHR 0x22] @ ''boom''
           @ [CHR 0x22] @ ''}''"
proof -
  have key: "quote ''error'' = [CHR 0x22] @ ''error'' @ [CHR 0x22]"
    by (simp add: quote_def escape_char_def)
  have val: "quote ''boom'' = [CHR 0x22] @ ''boom'' @ [CHR 0x22]"
    by (simp add: quote_def escape_char_def)
  show ?thesis
    by (simp add: getClient_outcome respond_resolves result_outcome isJson_a_response
        str_includes_self message_def number_to_string_500 key val)
qed

section \<open>Propagation and determinism: claims C8 and C9\<close>

text \<open>
  Claim C8. When the primitive rejects, the bound client rejects with that same value.
  When the primitive resolves to a response whose body-reading step rejects, be it
  \<^verbatim>\<open>res.json()\<close> under a JSON content type or \<^verbatim>\<open>res.text()\<close> under any other or none, the
  bound client rejects with that same value too, whatever the ok-flag, and never with a
  RequestFailure. The world is left as the call of the primitive and the one read of the
  body left it, and the primitive is called once: nothing is retried.
\<close>

theorem getClient_propagates_rejections:
  "(fetch input (merge_init defaultOpts init) w = (Inl e, w1)
      \<longrightarrow> getClient fetch defaultOpts input init w = (Inl (Propagated e), w1))
   \<and> (fetch input (merge_init defaultOpts init) w = (Inr res, w1)
        \<and> res_headers res ''content-type'' = Some ct \<and> str_includes ct ''application/json''
        \<and> res_json res w1 = (Inl e, w2)
      \<longrightarrow> getClient fetch defaultOpts input init w = (Inl (Propagated e), w2))
   \<and> (fetch input (merge_init defaultOpts init) w = (Inr res, w1)
        \<and> (res_headers res ''content-type'' = None
             \<or> (\<exists>ct. res_headers res ''content-type'' = Some ct
                    \<and> \<not> str_includes ct ''application/json''))
        \<and> res_text res w1 = (Inl e, w2)
      \<longrightarrow> getClient fetch defaultOpts input init w = (Inl (Propagated e), w2))
   \<and> length (fst (snd (getClient (spy prim) defaultOpts input init (calls, u))))
       = length calls + 1"
proof -
  have json: "getClient fetch defaultOpts input init w = (Inl (Propagated e), w2)"
    if "fetch input (merge_init defaultOpts init) w = (Inr res, w1)"
      "res_headers res ''content-type'' = Some ct" "str_includes ct ''application/json''"
      "res_json res w1 = (Inl e, w2)"
  proof -
    have "isJson res"
      using that(2,3) by (simp add: isJson_def)
    then have "result res w1 = (Inl e, w2)"
      using that(4) by (simp add: result_def)
    then show ?thesis
      using that(1) by (simp add: getClient_def)
  qed
  have plain: "getClient fetch defaultOpts input init w = (Inl (Propagated e), w2)"
    if "fetch input (merge_init defaultOpts init) w = (Inr res, w1)"
      "res_headers res ''content-type'' = None
         \<or> (\<exists>ct. res_headers res ''content-type'' = Some ct
                \<and> \<not> str_includes ct ''application/json'')"
      "res_text res w1 = (Inl e, w2)"
  proof -
    have "\<not> isJson res"
      using that(2) by (auto simp add: isJson_def)
    then have "result res w1 = (Inl e, w2)"
      using that(3) by (simp add: result_def)
    then show ?thesis
      using that(1) by (simp add: getClient_def)
  qed
  from json plain show ?thesis
    by (simp add: getClient_rejected spy_calls)
qed

text \<open>
  A refused connection; a response with a true ok-flag and a JSON content type whose
  body does not parse; a response with no content type whose text cannot be decoded, the
  ok-flag true and then false; and the one call a spy sees around a refusing primitive.
\<close>

theorem getClient_propagates_rejections_witness:
  "reject ''ECONNREFUSED'' ''https://x/y'' (merge_init None None) () = (Inl ''ECONNREFUSED'', ())
   \<and> getClient (reject ''ECONNREFUSED'') None ''https://x/y'' None ()
       = (Inl (Propagated ''ECONNREFUSED''), ())
   \<and> res_json (a_response True 200 ''https://x/y'' (Some ''application/json'')
                 (Inl ''SyntaxError'') (Inr ''{'')) ()
       = (Inl ''SyntaxError'', ())
   \<and> getClient
        (respond (a_response True 200 ''https://x/y'' (Some ''application/json'')
                    (Inl ''SyntaxError'') (Inr ''{'')))
        None ''https://x/y'' None ()
       = (Inl (Propagated ''SyntaxError''), ())
   \<and> res_text (a_response True 200 ''https://x/y'' None (Inr JNull) (Inl ''TypeError: decode'')) ()
       = (Inl ''TypeError: decode'', ())
   \<and> getClient
        (respond (a_response True 200 ''https://x/y'' None (Inr JNull) (Inl ''TypeError: decode'')))
        None ''https://x/y'' None ()
       = (Inl (Propagated ''TypeError: decode''), ())
   \<and> getClient
        (respond (a_response False 500 ''https://x/y'' None (Inr JNull) (Inl ''TypeError: decode'')))
        None ''https://x/y'' None ()
       = (Inl (Propagated ''TypeError: decode''), ())
   \<and> length (fst (snd (getClient (spy (reject ''ECONNREFUSED'')) None ''https://x/y'' None ([], ()))))
       = 1"
proof -
  let ?json = "a_response True 200 ''https://x/y'' (Some ''application/json'')
                 (Inl ''SyntaxError'') (Inr ''{'') :: (unit, string) response"
  let ?text = "a_response True 200 ''https://x/y'' None (Inr JNull) (Inl ''TypeError: decode'')
                 :: (unit, string) response"
  let ?fail = "a_response False 500 ''https://x/y'' None (Inr JNull) (Inl ''TypeError: decode'')
                 :: (unit, string) response"
  let ?prim = "reject ''ECONNREFUSED'' :: (unit, string) Fetch"
  have refused: "?prim ''https://x/y'' (merge_init None None) () = (Inl ''ECONNREFUSED'', ())"
    by (rule reject_rejects)
  have resolved: "respond r ''https://x/y'' (merge_init None None) () = (Inr r, ())"
    for r :: "(unit, string) response"
    by (rule respond_resolves)
  have included: "str_includes ''application/json'' ''application/json''"
    by (rule str_includes_self)
  from getClient_propagates_rejections
         [of ?prim "''https://x/y''" None None "()" "''ECONNREFUSED''" "()"
             ?json "''application/json''" "()" ?prim "[]" "()"]
       getClient_propagates_rejections
         [of "respond ?json" "''https://x/y''" None None "()" "''SyntaxError''" "()"
             ?json "''application/json''" "()" ?prim "[]" "()"]
       getClient_propagates_rejections
         [of "respond ?text" "''https://x/y''" None None "()" "''TypeError: decode''" "()"
             ?text "''application/json''" "()" ?prim "[]" "()"]
       getClient_propagates_rejections
         [of "respond ?fail" "''https://x/y''" None None "()" "''TypeError: decode''" "()"
             ?fail "''application/json''" "()" ?prim "[]" "()"]
       refused resolved included
  show ?thesis
    by simp
qed

text \<open>
  Claim C9 says that two calls with the same arguments against a deterministic primitive
  have the same outcome. A primitive that resolves to one and the same platform response
  at every call is deterministic, and yet the first call reads the body of that response
  and resolves, and the second, finding the body read, rejects.
\<close>

theorem getClient_shared_response_read_twice:
  "fst (getClient
          (respond (one_shot 0 True 200 ''https://x/ping'' None (Inl ''SyntaxError'') (Inr ''pong'')))
          None ''https://x/ping'' None [])
     = Inr (JStr ''pong'')
   \<and> fst (getClient
          (respond (one_shot 0 True 200 ''https://x/ping'' None (Inl ''SyntaxError'') (Inr ''pong'')))
          None ''https://x/ping'' None
          (snd (getClient
                  (respond (one_shot 0 True 200 ''https://x/ping'' None (Inl ''SyntaxError'')
                              (Inr ''pong'')))
                  None ''https://x/ping'' None [])))
     = Inl (Propagated ''TypeError: body already read'')"
  by (simp add: getClient_def respond_def result_def isJson_one_shot merge_init_def)

text \<open>
  Claim C9, amended. Take a primitive whose reply looks the same whatever the world: it
  rejects with the same value, or resolves to a response with the same ok-flag, status,
  url, content type and body property, whose body, read then, yields the same outcome.
  Two calls of the bound client with the same arguments against it have the same
  outcome, the same resolved value or the same rejection, whatever happened to the world
  in between; in particular the second of two successive calls, which runs in the world
  the first one left. That outcome is the one the reply determines: the value the
  primitive rejected with, or for a true ok-flag the text, or under a JSON content type
  the parsed value, that the response showed.
\<close>

theorem getClient_deterministic:
  assumes "\<And>a b u1 u2. reply fetch a b u1 = reply fetch a b u2"
  shows "fst (getClient fetch defaultOpts input init w1)
           = fst (getClient fetch defaultOpts input init w2)
         \<and> fst (getClient fetch defaultOpts input init
                  (snd (getClient fetch defaultOpts input init w1)))
           = fst (getClient fetch defaultOpts input init w1)
         \<and> (reply fetch input (merge_init defaultOpts init) w1 = Inl e
              \<longrightarrow> fst (getClient fetch defaultOpts input init w2) = Inl (Propagated e))
         \<and> (reply fetch input (merge_init defaultOpts init) w1
               = Inr (True, st, url, None, body, j, Inr t)
              \<longrightarrow> fst (getClient fetch defaultOpts input init w2) = Inr (JStr t))
         \<and> (reply fetch input (merge_init defaultOpts init) w1
               = Inr (True, st, url, Some ct, body, Inr v, t')
              \<and> str_includes ct ''application/json''
              \<longrightarrow> fst (getClient fetch defaultOpts input init w2) = Inr v)"
proof -
  let ?opts = "merge_init defaultOpts init"
  have rejected: "fst (getClient fetch defaultOpts input init u) = Inl (Propagated e')"
    if "reply fetch input ?opts u = Inl e'" for u e'
    using that
    by (auto simp add: reply_def getClient_outcome split: prod.splits sum.splits)
  have resolved: "fst (getClient fetch defaultOpts input init u) =
      (case (if (case c of None \<Rightarrow> False | Some x \<Rightarrow> str_includes x ''application/json'')
             then pj else map_sum id JStr pt) of
         Inl e' \<Rightarrow> Inl (Propagated e')
       | Inr r \<Rightarrow>
           if k then Inr r
           else Inl (Error (''Request to '' @ l @ '' failed with status '' @ number_to_string s
                  @ '' and response '' @ [CHR 0x22]
                  @ (if (case c of None \<Rightarrow> False | Some x \<Rightarrow> str_includes x ''application/json'')
                     then JSON_stringify b else to_string r)
                  @ [CHR 0x22] @ ''.'')))"
    if "reply fetch input ?opts u = Inr (k, s, l, c, b, pj, pt)" for u k s l c b pj pt
    using that
    by (auto simp add: reply_def seen_def getClient_outcome result_outcome message_def isJson_def
        split: prod.splits sum.splits option.splits)
  have same: "fst (getClient fetch defaultOpts input init u1)
                = fst (getClient fetch defaultOpts input init u2)" for u1 u2
  proof (cases "reply fetch input ?opts u1")
    case (Inl e')
    then have "reply fetch input ?opts u2 = Inl e'"
      using assms [of input ?opts u1 u2] by simp
    with Inl show ?thesis
      by (simp add: rejected)
  next
    case (Inr view)
    obtain k s l c b pj pt where view: "view = (k, s, l, c, b, pj, pt)"
      by (cases view)
    from Inr view have first: "reply fetch input ?opts u1 = Inr (k, s, l, c, b, pj, pt)"
      by simp
    then have second: "reply fetch input ?opts u2 = Inr (k, s, l, c, b, pj, pt)"
      using assms [of input ?opts u1 u2] by simp
    show ?thesis
      by (simp only: resolved [OF first] resolved [OF second])
  qed
  have pin_rejected: "fst (getClient fetch defaultOpts input init w2) = Inl (Propagated e)"
    if "reply fetch input ?opts w1 = Inl e"
    using that rejected [of w1 e] same [of w1 w2] by simp
  have pin_text: "fst (getClient fetch defaultOpts input init w2) = Inr (JStr t)"
    if "reply fetch input ?opts w1 = Inr (True, st, url, None, body, j, Inr t)"
    using resolved [OF that] same [of w1 w2] by simp
  have pin_json: "fst (getClient fetch defaultOpts input init w2) = Inr v"
    if "reply fetch input ?opts w1 = Inr (True, st, url, Some ct, body, Inr v, t')"
      "str_includes ct ''application/json''"
    using resolved [OF that(1)] that(2) same [of w1 w2] by simp
  from same [of w1 w2] same [of "snd (getClient fetch defaultOpts input init w1)" w1]
       pin_rejected pin_text pin_json
  show ?thesis
    by blast
qed

text \<open>
  Two successive calls against a primitive that builds a new platform response at every
  call: both resolve to "pong", while the world grows by the body each call has read.
\<close>

theorem getClient_deterministic_witness:
  "reply (serve True 200 None (Inl ''SyntaxError'') (Inr ''pong'')) ''https://x/ping'' None []
     = Inr (True, 200, ''https://x/ping'', None, JReadableStream, Inl ''SyntaxError'', Inr ''pong'')
   \<and> getClient (serve True 200 None (Inl ''SyntaxError'') (Inr ''pong''))
        None ''https://x/ping'' None []
     = (Inr (JStr ''pong''), [1])
   \<and> getClient (serve True 200 None (Inl ''SyntaxError'') (Inr ''pong''))
        None ''https://x/ping'' None [1]
     = (Inr (JStr ''pong''), [2, 1])
   \<and> fst (getClient (serve True 200 None (Inl ''SyntaxError'') (Inr ''pong''))
        None ''https://x/ping'' None
        (snd (getClient (serve True 200 None (Inl ''SyntaxError'') (Inr ''pong''))
                None ''https://x/ping'' None [])))
     = Inr (JStr ''pong'')"
proof -
  let ?fetch = "serve True 200 None (Inl ''SyntaxError'') (Inr ''pong'')"
  have det: "reply ?fetch a b u1 = reply ?fetch a b u2" for a b u1 u2
    by (simp add: serve_reply)
  have seen_first: "reply ?fetch ''https://x/ping'' None [] =
      Inr (True, 200, ''https://x/ping'', None, JReadableStream, Inl ''SyntaxError'', Inr ''pong'')"
    by (rule serve_reply)
  have first: "getClient ?fetch None ''https://x/ping'' None [] = (Inr (JStr ''pong''), [1])"
    by (simp add: getClient_def serve_def result_def isJson_one_shot merge_init_def fresh_id_def)
  have second: "getClient ?fetch None ''https://x/ping'' None [1] = (Inr (JStr ''pong''), [2, 1])"
    by (simp add: getClient_def serve_def result_def isJson_one_shot merge_init_def fresh_id_def)
  have twice: "fst (getClient ?fetch None ''https://x/ping'' None
                     (snd (getClient ?fetch None ''https://x/ping'' None [])))
                 = fst (getClient ?fetch None ''https://x/ping'' None [])"
    by (rule getClient_deterministic
               [of ?fetch None "''https://x/ping''" None "[]" "[1]", OF det,
                THEN conjunct2, THEN conjunct1])
  show ?thesis
    unfolding twice using seen_first first second by simp
qed

end
